theory Spec2Isabelle
  imports Main
begin

section \<open>Python values\<close>

text \<open>
  The renderers of \<^verbatim>\<open>app.py\<close> receive the result of \<^verbatim>\<open>json.loads\<close>: a
  dictionary whose values are arbitrary JSON values. A float is kept as sign, mantissa and
  binary exponent (\<open>Finite neg m e\<close> is \<open>\<plusminus> m * 2 ^ e\<close>), so that every finite double,
  both zeros, the infinities and NaN are values. A dictionary is an association list in
  insertion order; lookups take the first entry of a key. Strings are lists of characters,
  one character for one code point, and \<open>length\<close> is Python's \<^verbatim>\<open>len\<close>.
  Integers are unbounded; the interpreter's limit on the number of digits of an integer
  converted to or from text is not modelled (\<^verbatim>\<open>json.loads\<close> enforces it on what
  it reads).
\<close>

datatype pyfloat = Finite bool nat int | Infinity bool | NaN

datatype json =
    JNull
  | JBool bool
  | JInt int
  | JFloat pyfloat
  | JStr string
  | JList "json list"
  | JDict "(string \<times> json) list"

type_synonym py_dict = "(string \<times> json) list"

text \<open>Exceptions are values: a function that can raise returns \<open>py_exception + 'a\<close>.\<close>

datatype py_exception =
    KeyError json
  | IndexError
  | TypeError
  | ValueError
  | OverflowError
  | AttributeError
  | ExternalError string

type_synonym 'a result = "py_exception + 'a"

definition bind :: "'a result \<Rightarrow> ('a \<Rightarrow> 'b result) \<Rightarrow> 'b result" where
  "bind r f = (case r of Inl e \<Rightarrow> Inl e | Inr v \<Rightarrow> f v)"

text \<open>Evaluation of a list of computations from left to right, stopping at the first raise.\<close>

fun map_result :: "('a \<Rightarrow> 'b result) \<Rightarrow> 'a list \<Rightarrow> 'b list result" where
  "map_result f [] = Inr []"
| "map_result f (x # xs) =
     (case f x of
        Inl e \<Rightarrow> Inl e
      | Inr y \<Rightarrow> (case map_result f xs of Inl e \<Rightarrow> Inl e | Inr ys \<Rightarrow> Inr (y # ys)))"

subsection \<open>Builtins the renderers rely on\<close>

text \<open>
  The parsers behind \<^verbatim>\<open>float(s)\<close> and \<^verbatim>\<open>int(s)\<close> for a string \<open>s\<close>, and
  \<^verbatim>\<open>repr\<close> of a float and of a string, belong to the interpreter. They are parameters
  of the model: \<open>None\<close> from a parser is Python's \<^verbatim>\<open>ValueError\<close>.
\<close>

record py_builtins =
  float_of_str :: "string \<Rightarrow> pyfloat option"
  int_of_str :: "string \<Rightarrow> int option"
  repr_float :: "pyfloat \<Rightarrow> string"
  repr_str :: "string \<Rightarrow> string"

abbreviation nl :: char where
  "nl \<equiv> CHR 0x0A"

fun join :: "string \<Rightarrow> string list \<Rightarrow> string" where
  "join sep [] = []"
| "join sep [x] = x"
| "join sep (x # y # ys) = x @ sep @ join sep (y # ys)"

definition digit_char :: "nat \<Rightarrow> char" where
  "digit_char d = ''0123456789'' ! d"

fun show_nat :: "nat \<Rightarrow> string" where
  "show_nat n = (if n < 10 then [digit_char n] else show_nat (n div 10) @ [digit_char (n mod 10)])"

declare show_nat.simps [simp del]

definition show_int :: "int \<Rightarrow> string" where
  "show_int i = (if i < 0 then ''-'' @ show_nat (nat (- i)) else show_nat (nat i))"

text \<open>The \<^verbatim>\<open>,\<close> format option: decimal digits in groups of three from the right.\<close>

fun group_thousands :: "nat \<Rightarrow> string" where
  "group_thousands n =
     (if n < 1000 then show_nat n
      else group_thousands (n div 1000) @ '','' @
           [digit_char (n mod 1000 div 100), digit_char (n mod 100 div 10), digit_char (n mod 10)])"

declare group_thousands.simps [simp del]

text \<open>\<^verbatim>\<open>f"{n:,}"\<close> for an int \<open>n\<close>.\<close>

definition format_int_grouped :: "int \<Rightarrow> string" where
  "format_int_grouped i =
     (if i < 0 then ''-'' @ group_thousands (nat (- i)) else group_thousands (nat i))"

text \<open>Division rounded to the nearest integer, ties to the even one.\<close>

definition round_half_even_div :: "nat \<Rightarrow> nat \<Rightarrow> nat" where
  "round_half_even_div n d =
     (let q = n div d; r = n mod d
      in if d < 2 * r \<or> (2 * r = d \<and> odd q) then q + 1 else q)"

text \<open>
  \<^verbatim>\<open>f"{x:,.2f}"\<close> for a float \<open>x\<close>: the exact binary value rounded to two decimals,
  ties to even, with the sign bit shown also when the rounded value is zero.
\<close>

fun format_float_2f :: "pyfloat \<Rightarrow> string" where
  "format_float_2f NaN = ''nan''"
| "format_float_2f (Infinity neg) = (if neg then ''-inf'' else ''inf'')"
| "format_float_2f (Finite neg m e) =
     (let cents = (if 0 \<le> e then m * 2 ^ nat e * 100
                   else round_half_even_div (m * 100) (2 ^ nat (- e)))
      in (if neg then ''-'' else '''') @ group_thousands (cents div 100) @ ''.'' @
         [digit_char (cents mod 100 div 10), digit_char (cents mod 10)])"

fun bit_length :: "nat \<Rightarrow> nat" where
  "bit_length n = (if n = 0 then 0 else Suc (bit_length (n div 2)))"

declare bit_length.simps [simp del]

text \<open>
  \<^verbatim>\<open>float(n)\<close> for an int: the nearest double (53 significant bits, ties to even),
  \<^verbatim>\<open>OverflowError\<close> when that is \<open>2 ^ 1024\<close> or more.
\<close>

definition float_of_int :: "int \<Rightarrow> pyfloat result" where
  "float_of_int i =
     (let a = nat \<bar>i\<bar>; l = bit_length a
      in if l \<le> 53 then Inr (Finite (i < 0) a 0)
         else (let k = l - 53; q = round_half_even_div a (2 ^ k)
               in if 2 ^ 1024 \<le> q * 2 ^ k then Inl OverflowError
                  else Inr (Finite (i < 0) q (int k))))"

fun py_float :: "py_builtins \<Rightarrow> json \<Rightarrow> pyfloat result" where
  "py_float rt (JFloat x) = Inr x"
| "py_float rt (JInt i) = float_of_int i"
| "py_float rt (JBool b) = Inr (Finite False (if b then 1 else 0) 0)"
| "py_float rt (JStr s) = (case float_of_str rt s of None \<Rightarrow> Inl ValueError | Some x \<Rightarrow> Inr x)"
| "py_float rt JNull = Inl TypeError"
| "py_float rt (JList xs) = Inl TypeError"
| "py_float rt (JDict kvs) = Inl TypeError"

text \<open>\<^verbatim>\<open>int(x)\<close>: a float is truncated towards zero.\<close>

fun int_of_float :: "pyfloat \<Rightarrow> int result" where
  "int_of_float NaN = Inl ValueError"
| "int_of_float (Infinity neg) = Inl OverflowError"
| "int_of_float (Finite neg m e) =
     (let a = (if 0 \<le> e then m * 2 ^ nat e else m div 2 ^ nat (- e))
      in Inr (if neg then - int a else int a))"

fun py_int :: "py_builtins \<Rightarrow> json \<Rightarrow> int result" where
  "py_int rt (JInt i) = Inr i"
| "py_int rt (JBool b) = Inr (if b then 1 else 0)"
| "py_int rt (JFloat x) = int_of_float x"
| "py_int rt (JStr s) = (case int_of_str rt s of None \<Rightarrow> Inl ValueError | Some i \<Rightarrow> Inr i)"
| "py_int rt JNull = Inl TypeError"
| "py_int rt (JList xs) = Inl TypeError"
| "py_int rt (JDict kvs) = Inl TypeError"

text \<open>\<^verbatim>\<open>repr\<close> and \<^verbatim>\<open>str\<close> of a JSON value.\<close>

fun py_repr :: "py_builtins \<Rightarrow> json \<Rightarrow> string"
  and py_repr_items :: "py_builtins \<Rightarrow> json list \<Rightarrow> string list"
  and py_repr_entries :: "py_builtins \<Rightarrow> (string \<times> json) list \<Rightarrow> string list" where
  "py_repr rt JNull = ''None''"
| "py_repr rt (JBool b) = (if b then ''True'' else ''False'')"
| "py_repr rt (JInt i) = show_int i"
| "py_repr rt (JFloat x) = repr_float rt x"
| "py_repr rt (JStr s) = repr_str rt s"
| "py_repr rt (JList xs) = ''['' @ join '', '' (py_repr_items rt xs) @ '']''"
| "py_repr rt (JDict kvs) = ''{'' @ join '', '' (py_repr_entries rt kvs) @ ''}''"
| "py_repr_items rt [] = []"
| "py_repr_items rt (x # xs) = py_repr rt x # py_repr_items rt xs"
| "py_repr_entries rt [] = []"
| "py_repr_entries rt (kv # kvs) =
     (repr_str rt (fst kv) @ '': '' @ py_repr rt (snd kv)) # py_repr_entries rt kvs"

definition py_str :: "py_builtins \<Rightarrow> json \<Rightarrow> string" where
  "py_str rt v = (case v of JStr s \<Rightarrow> s | _ \<Rightarrow> py_repr rt v)"

text \<open>Truth value of a JSON value in a condition.\<close>

fun py_truthy :: "json \<Rightarrow> bool" where
  "py_truthy JNull = False"
| "py_truthy (JBool b) = b"
| "py_truthy (JInt i) = (i \<noteq> 0)"
| "py_truthy (JFloat (Finite neg m e)) = (m \<noteq> 0)"
| "py_truthy (JFloat (Infinity neg)) = True"
| "py_truthy (JFloat NaN) = True"
| "py_truthy (JStr s) = (s \<noteq> [])"
| "py_truthy (JList xs) = (xs \<noteq> [])"
| "py_truthy (JDict kvs) = (kvs \<noteq> [])"

text \<open>\<^verbatim>\<open>x[key]\<close> with a string key: only a dictionary has string keys.\<close>

fun py_getitem :: "json \<Rightarrow> string \<Rightarrow> json result" where
  "py_getitem (JDict kvs) key =
     (case map_of kvs key of None \<Rightarrow> Inl (KeyError (JStr key)) | Some v \<Rightarrow> Inr v)"
| "py_getitem v key = Inl TypeError"

text \<open>\<^verbatim>\<open>x[i]\<close> with an index \<open>i \<ge> 0\<close>.\<close>

fun py_getitem_index :: "json \<Rightarrow> nat \<Rightarrow> json result" where
  "py_getitem_index (JList xs) i = (if i < length xs then Inr (xs ! i) else Inl IndexError)"
| "py_getitem_index (JStr s) i = (if i < length s then Inr (JStr [s ! i]) else Inl IndexError)"
| "py_getitem_index (JDict kvs) i = Inl (KeyError (JInt (int i)))"
| "py_getitem_index v i = Inl TypeError"

text \<open>Iteration: a list gives its elements, a string its characters, a dictionary its keys.\<close>

fun py_iter :: "json \<Rightarrow> json list result" where
  "py_iter (JList xs) = Inr xs"
| "py_iter (JStr s) = Inr (map (\<lambda>c. JStr [c]) s)"
| "py_iter (JDict kvs) = Inr (map (\<lambda>kv. JStr (fst kv)) kvs)"
| "py_iter v = Inl TypeError"

fun py_len :: "json \<Rightarrow> nat result" where
  "py_len (JStr s) = Inr (length s)"
| "py_len (JList xs) = Inr (length xs)"
| "py_len (JDict kvs) = Inr (length kvs)"
| "py_len v = Inl TypeError"

fun is_substring :: "string \<Rightarrow> string \<Rightarrow> bool" where
  "is_substring sub [] = (sub = [])"
| "is_substring sub (c # cs) = (take (length sub) (c # cs) = sub \<or> is_substring sub cs)"

text \<open>\<^verbatim>\<open>key in x\<close> for a string \<open>key\<close>.\<close>

fun py_contains :: "json \<Rightarrow> string \<Rightarrow> bool result" where
  "py_contains (JDict kvs) key = Inr (key \<in> fst ` set kvs)"
| "py_contains (JList xs) key = Inr (JStr key \<in> set xs)"
| "py_contains (JStr s) key = Inr (is_substring key s)"
| "py_contains v key = Inl TypeError"

text \<open>\<^verbatim>\<open>s.ljust(w)\<close>; a list or a dictionary has no such method.\<close>

definition ljust :: "string \<Rightarrow> nat \<Rightarrow> string" where
  "ljust s w = s @ replicate (w - length s) CHR '' ''"

fun py_ljust :: "json \<Rightarrow> nat \<Rightarrow> string result" where
  "py_ljust (JStr s) w = Inr (ljust s w)"
| "py_ljust v w = Inl AttributeError"

text \<open>An item of \<^verbatim>\<open>str.join\<close> that is not a string raises \<^verbatim>\<open>TypeError\<close>.\<close>

fun expect_str :: "json \<Rightarrow> string result" where
  "expect_str (JStr s) = Inr s"
| "expect_str v = Inl TypeError"

section \<open>Cell formatting\<close>

text \<open>
  The cell formatting of \<^verbatim>\<open>process_query_results\<close> (the body of the inner loop):
  \<open>value\<close> is the cell and \<open>col\<close> the schema entry paired with it.
\<close>

definition is_type_name :: "json \<Rightarrow> string list \<Rightarrow> bool" where
  "is_type_name t names = (case t of JStr s \<Rightarrow> s \<in> set names | _ \<Rightarrow> False)"

definition format_value_plain :: "py_builtins \<Rightarrow> json \<Rightarrow> json \<Rightarrow> string result" where
  "format_value_plain rt value col =
     (if value = JNull then Inr ''NULL''
      else bind (py_getitem col ''type_name'') (\<lambda>t.
        if is_type_name t [''DECIMAL'', ''DOUBLE'', ''FLOAT'']
        then bind (py_float rt value) (\<lambda>x. Inr (format_float_2f x))
        else bind (py_getitem col ''type_name'') (\<lambda>t'.
          if is_type_name t' [''INT'', ''BIGINT'', ''LONG'']
          then bind (py_int rt value) (\<lambda>i. Inr (format_int_grouped i))
          else Inr (py_str rt value))))"

text \<open>The same lines as they stand in \<^verbatim>\<open>process_for_slack\<close>.\<close>

definition format_value_slack :: "py_builtins \<Rightarrow> json \<Rightarrow> json \<Rightarrow> string result" where
  "format_value_slack rt value col =
     (if value = JNull then Inr ''NULL''
      else bind (py_getitem col ''type_name'') (\<lambda>t.
        if is_type_name t [''DECIMAL'', ''DOUBLE'', ''FLOAT'']
        then bind (py_float rt value) (\<lambda>x. Inr (format_float_2f x))
        else bind (py_getitem col ''type_name'') (\<lambda>t'.
          if is_type_name t' [''INT'', ''BIGINT'', ''LONG'']
          then bind (py_int rt value) (\<lambda>i. Inr (format_int_grouped i))
          else Inr (py_str rt value))))"

section \<open>The plain renderer\<close>

text \<open>The optional description header, common to every branch.\<close>

definition plain_description :: "py_builtins \<Rightarrow> py_dict \<Rightarrow> string" where
  "plain_description rt answer_json =
     (case map_of answer_json ''query_description'' of
        None \<Rightarrow> []
      | Some d \<Rightarrow>
          if py_truthy d
          then ''## Query Description'' @ [nl, nl] @ py_str rt d @ [nl, nl]
          else [])"

text \<open>
  The header line: every \<^verbatim>\<open>col["name"]\<close> is read before \<^verbatim>\<open>join\<close> looks at
  the items, and \<^verbatim>\<open>join\<close> accepts strings only.
\<close>

definition plain_header :: "json \<Rightarrow> string result" where
  "plain_header cols_value =
     bind (py_iter cols_value) (\<lambda>cols.
     bind (map_result (\<lambda>col. py_getitem col ''name'') cols) (\<lambda>names.
     bind (map_result expect_str names) (\<lambda>strs.
       Inr (''| '' @ join '' | '' strs @ '' |''))))"

definition plain_separator :: "json \<Rightarrow> string result" where
  "plain_separator cols_value =
     bind (py_iter cols_value) (\<lambda>cols.
       Inr (''|'' @ join ''|'' (map (\<lambda>_. ''---'') cols) @ ''|''))"

text \<open>One pass of the outer loop: the line of a row.\<close>

definition plain_row :: "py_builtins \<Rightarrow> json \<Rightarrow> json \<Rightarrow> string result" where
  "plain_row rt cols_value row =
     bind (py_iter row) (\<lambda>values.
     bind (py_iter cols_value) (\<lambda>cols.
     bind (map_result (\<lambda>(value, col). format_value_plain rt value col) (zip values cols))
       (\<lambda>formatted_row. Inr (''| '' @ join '' | '' formatted_row @ '' |'' @ [nl]))))"

definition plain_table :: "py_builtins \<Rightarrow> json \<Rightarrow> json \<Rightarrow> string result" where
  "plain_table rt columns data =
     bind (py_getitem columns ''columns'') (\<lambda>cols_value.
     bind (plain_header cols_value) (\<lambda>header.
     bind (plain_separator cols_value) (\<lambda>separator.
     bind (py_getitem data ''data_array'') (\<lambda>data_array.
     bind (py_iter data_array) (\<lambda>rows.
     bind (map_result (plain_row rt cols_value) rows) (\<lambda>row_lines.
       Inr (header @ [nl] @ separator @ [nl] @ concat row_lines)))))))"

definition is_dict_with :: "json \<Rightarrow> string \<Rightarrow> bool" where
  "is_dict_with v key = (case v of JDict kvs \<Rightarrow> key \<in> fst ` set kvs | _ \<Rightarrow> False)"

definition process_query_results :: "py_builtins \<Rightarrow> py_dict \<Rightarrow> string result" where
  "process_query_results rt answer_json =
     (let response = plain_description rt answer_json
      in case (map_of answer_json ''columns'', map_of answer_json ''data'') of
           (Some columns, Some data) \<Rightarrow>
             if is_dict_with columns ''columns''
             then bind (plain_table rt columns data) (\<lambda>table.
                    Inr (response @ ''## Query Results'' @ [nl, nl] @ table))
             else Inr (response @ ''## Query Results'' @ [nl, nl] @
                       ''Unexpected column format: '' @ py_str rt columns @ [nl, nl])
         | _ \<Rightarrow>
             (case map_of answer_json ''message'' of
                Some message \<Rightarrow> Inr (response @ py_str rt message @ [nl, nl])
              | None \<Rightarrow> Inr (response @ ''No data available.'' @ [nl, nl])))"

section \<open>The block renderer\<close>

text \<open>A block is the dictionary the source builds; its text is any JSON value.\<close>

definition section_block :: "json \<Rightarrow> json" where
  "section_block t =
     JDict [(''type'', JStr ''section''),
            (''text'', JDict [(''type'', JStr ''mrkdwn''), (''text'', t)])]"

definition divider_block :: json where
  "divider_block = JDict [(''type'', JStr ''divider'')]"

definition slack_description :: "py_builtins \<Rightarrow> py_dict \<Rightarrow> json list" where
  "slack_description rt answer_json =
     (case map_of answer_json ''query_description'' of
        None \<Rightarrow> []
      | Some d \<Rightarrow>
          if py_truthy d
          then [section_block (JStr (''*Query Description:*'' @ [nl] @ py_str rt d)),
                divider_block]
          else [])"

text \<open>
  The inner loop over \<^verbatim>\<open>enumerate(row_data)\<close>, from index \<open>i\<close> on: it returns the
  updated \<^verbatim>\<open>col_widths\<close> and the formatted cells.
\<close>

fun slack_format_row ::
  "py_builtins \<Rightarrow> json \<Rightarrow> nat \<Rightarrow> json list \<Rightarrow> nat list \<Rightarrow> (nat list \<times> string list) result" where
  "slack_format_row rt cols_value i [] col_widths = Inr (col_widths, [])"
| "slack_format_row rt cols_value i (value # values) col_widths =
     bind (py_getitem_index cols_value i) (\<lambda>col.
     bind (format_value_slack rt value col) (\<lambda>formatted_value.
       if i < length col_widths
       then bind (slack_format_row rt cols_value (Suc i) values
                    (col_widths[i := max (col_widths ! i) (length formatted_value)]))
              (\<lambda>(col_widths', formatted_row). Inr (col_widths', formatted_value # formatted_row))
       else Inl IndexError))"

text \<open>The outer loop over \<^verbatim>\<open>data["data_array"]\<close>.\<close>

fun slack_format_rows ::
  "py_builtins \<Rightarrow> json \<Rightarrow> json list \<Rightarrow> nat list \<Rightarrow> (nat list \<times> string list list) result" where
  "slack_format_rows rt cols_value [] col_widths = Inr (col_widths, [])"
| "slack_format_rows rt cols_value (row_data # rows) col_widths =
     bind (py_iter row_data) (\<lambda>values.
     bind (slack_format_row rt cols_value 0 values col_widths) (\<lambda>(col_widths', formatted_row).
     bind (slack_format_rows rt cols_value rows col_widths') (\<lambda>(col_widths'', formatted_rows).
       Inr (col_widths'', formatted_row # formatted_rows))))"

definition slack_row_line :: "nat list \<Rightarrow> string list \<Rightarrow> string" where
  "slack_row_line col_widths row =
     join '' | '' (map (\<lambda>(i, val). ljust val (col_widths ! i)) (enumerate 0 row)) @ [nl]"

text \<open>Lines 209 to 244: the table before truncation.\<close>

definition slack_table :: "py_builtins \<Rightarrow> json \<Rightarrow> json \<Rightarrow> string result" where
  "slack_table rt columns data =
     bind (py_getitem columns ''columns'') (\<lambda>cols_value.
     bind (py_iter cols_value) (\<lambda>cols.
     bind (map_result (\<lambda>col. py_getitem col ''name'') cols) (\<lambda>header_names.
     bind (map_result py_len header_names) (\<lambda>col_widths0.
     bind (py_getitem data ''data_array'') (\<lambda>data_array.
     bind (py_iter data_array) (\<lambda>rows.
     bind (slack_format_rows rt cols_value rows col_widths0) (\<lambda>(col_widths, formatted_rows).
     bind (map_result (\<lambda>(i, name). py_ljust name (col_widths ! i)) (enumerate 0 header_names))
       (\<lambda>header_cells.
         let header_str = join '' | '' header_cells;
             separator_str = join ''-+-'' (map (\<lambda>width. replicate width CHR ''-'') col_widths)
         in Inr (header_str @ [nl] @ separator_str @ [nl] @
                 concat (map (slack_row_line col_widths) formatted_rows))))))))))"

definition max_chars :: nat where
  "max_chars = 2950"

definition truncate_table :: "string \<Rightarrow> string" where
  "truncate_table table_str =
     take max_chars table_str @ (if max_chars < length table_str then ''...'' else [])"

definition process_for_slack :: "py_builtins \<Rightarrow> py_dict \<Rightarrow> json list result" where
  "process_for_slack rt answer_json =
     (let blocks = slack_description rt answer_json
      in case (map_of answer_json ''columns'', map_of answer_json ''data'') of
           (Some columns, Some data) \<Rightarrow>
             bind (if is_dict_with columns ''columns'' then py_contains data ''data_array''
                   else Inr False) (\<lambda>well_formed.
               if well_formed
               then bind (slack_table rt columns data) (\<lambda>table_str.
                      Inr (blocks @
                           [section_block (JStr ''*Query Results:*''),
                            section_block (JStr (''```'' @ truncate_table table_str @ ''```''))]))
               else Inr (blocks @ [section_block (JStr ''Unexpected data format received.'')]))
         | _ \<Rightarrow>
             (case map_of answer_json ''message'' of
                Some message \<Rightarrow> Inr (blocks @ [section_block message])
              | None \<Rightarrow> Inr (blocks @ [section_block (JStr ''No data available.'')])))"

section \<open>The orchestrator\<close>

text \<open>
  The objects of the Databricks SDK, with the fields \<^verbatim>\<open>ask_genie\<close> reads. A schema
  and a result are kept as the dictionary their \<^verbatim>\<open>as_dict()\<close> returns. An optional
  field that is \<open>None\<close> is Python's \<^verbatim>\<open>None\<close>.
\<close>

record genie_query_attachment =
  qa_description :: "string option"

record text_attachment =
  ta_content :: "string option"

record genie_attachment =
  att_query :: "genie_query_attachment option"
  att_text :: "text_attachment option"

record genie_result =
  res_statement_id :: "string option"

record genie_message =
  gm_id :: string
  gm_conversation_id :: string
  gm_content :: string
  gm_query_result :: "genie_result option"
  gm_attachments :: "genie_attachment list option"

record result_manifest =
  rm_schema :: "py_dict option"

record statement_response =
  sr_statement_id :: "string option"
  sr_manifest :: "result_manifest option"
  sr_result :: "py_dict option"

record query_result_response =
  qr_statement_response :: "statement_response option"

text \<open>
  The backend is outside the program: each call takes the state \<open>'w\<close> of the outside
  world, returns a value or raises, and leaves a new state. The calls made are recorded
  in order.
\<close>

datatype api_call =
    StartConversation string string
  | CreateMessage string string string
  | GetMessageQueryResult string string string
  | GetMessage string string string
  | GetStatement "string option"

record 'w genie_backend =
  start_conversation_and_wait :: "string \<Rightarrow> string \<Rightarrow> 'w \<Rightarrow> genie_message result \<times> 'w"
  create_message_and_wait :: "string \<Rightarrow> string \<Rightarrow> string \<Rightarrow> 'w \<Rightarrow> genie_message result \<times> 'w"
  get_message_query_result ::
    "string \<Rightarrow> string \<Rightarrow> string \<Rightarrow> 'w \<Rightarrow> query_result_response result \<times> 'w"
  get_message :: "string \<Rightarrow> string \<Rightarrow> string \<Rightarrow> 'w \<Rightarrow> genie_message result \<times> 'w"
  get_statement :: "string option \<Rightarrow> 'w \<Rightarrow> statement_response result \<times> 'w"

type_synonym 'w io = "'w \<times> api_call list"

definition call :: "api_call \<Rightarrow> ('w \<Rightarrow> 'a result \<times> 'w) \<Rightarrow> 'w io \<Rightarrow> 'a result \<times> 'w io" where
  "call c f s = (case f (fst s) of (r, w') \<Rightarrow> (r, (w', snd s @ [c])))"

text \<open>The description of the first attachment that carries a non-empty one.\<close>

fun query_description_of :: "genie_attachment list \<Rightarrow> string" where
  "query_description_of [] = []"
| "query_description_of (attachment # attachments) =
     (case att_query attachment of
        None \<Rightarrow> query_description_of attachments
      | Some q \<Rightarrow>
          (case qa_description q of
             None \<Rightarrow> query_description_of attachments
           | Some d \<Rightarrow> if d \<noteq> [] then d else query_description_of attachments))"

text \<open>The text of the first attachment that carries a non-empty one.\<close>

fun first_text_content :: "genie_attachment list \<Rightarrow> string option" where
  "first_text_content [] = None"
| "first_text_content (attachment # attachments) =
     (case att_text attachment of
        None \<Rightarrow> first_text_content attachments
      | Some t \<Rightarrow>
          (case ta_content t of
             None \<Rightarrow> first_text_content attachments
           | Some c \<Rightarrow> if c \<noteq> [] then Some c else first_text_content attachments))"

text \<open>Lines 111 to 123: iterating \<^verbatim>\<open>None\<close> and reading a field of \<^verbatim>\<open>None\<close> raise.\<close>

definition tabular_payload :: "statement_response \<Rightarrow> genie_message \<Rightarrow> py_dict result" where
  "tabular_payload results message_content =
     (case gm_attachments message_content of
        None \<Rightarrow> Inl TypeError
      | Some attachments \<Rightarrow>
          (let query_description = query_description_of attachments
           in case sr_manifest results of
                None \<Rightarrow> Inl AttributeError
              | Some manifest \<Rightarrow>
                  (case rm_schema manifest of
                     None \<Rightarrow> Inl AttributeError
                   | Some schema \<Rightarrow>
                       (case sr_result results of
                          None \<Rightarrow> Inl AttributeError
                        | Some result_data \<Rightarrow>
                            Inr [(''columns'', JDict schema),
                                 (''data'', JDict result_data),
                                 (''query_description'', JStr query_description)]))))"

text \<open>Lines 125 to 132.\<close>

definition message_payload :: "genie_message \<Rightarrow> py_dict" where
  "message_payload message_content =
     (case (case gm_attachments message_content of
              None \<Rightarrow> None
            | Some attachments \<Rightarrow> first_text_content attachments) of
        Some c \<Rightarrow> [(''message'', JStr c)]
      | None \<Rightarrow> [(''message'', JStr (gm_content message_content))])"

text \<open>Lines 86 to 132, after the first call has returned \<open>initial_message\<close>.\<close>

definition ask_genie_rest ::
  "'w genie_backend \<Rightarrow> string \<Rightarrow> genie_message \<Rightarrow> 'w io \<Rightarrow> py_dict result \<times> 'w io" where
  "ask_genie_rest api space_id initial_message s =
     (let conv = gm_conversation_id initial_message; mid = gm_id initial_message
      in case (case gm_query_result initial_message of
                 None \<Rightarrow> (Inr None, s)
               | Some _ \<Rightarrow>
                   (case call (GetMessageQueryResult space_id conv mid)
                           (get_message_query_result api space_id conv mid) s of
                      (Inl e, s') \<Rightarrow> (Inl e, s')
                    | (Inr qr, s') \<Rightarrow> (Inr (Some qr), s'))) of
           (Inl e, s1) \<Rightarrow> (Inl e, s1)
         | (Inr query_result, s1) \<Rightarrow>
             (case call (GetMessage space_id conv mid) (get_message api space_id conv mid) s1 of
                (Inl e, s2) \<Rightarrow> (Inl e, s2)
              | (Inr message_content, s2) \<Rightarrow>
                  (case (case query_result of
                           None \<Rightarrow> None
                         | Some qr \<Rightarrow> qr_statement_response qr) of
                     Some sr \<Rightarrow>
                       (case call (GetStatement (sr_statement_id sr))
                               (get_statement api (sr_statement_id sr)) s2 of
                          (Inl e, s3) \<Rightarrow> (Inl e, s3)
                        | (Inr results, s3) \<Rightarrow> (tabular_payload results message_content, s3))
                   | None \<Rightarrow> (Inr (message_payload message_content), s2))))"

text \<open>
  The body of the \<^verbatim>\<open>try\<close>: its outcome, together with the value the local
  variable \<^verbatim>\<open>conversation_id\<close> holds when the body is left.
\<close>

definition ask_genie_try ::
  "'w genie_backend \<Rightarrow> string \<Rightarrow> string \<Rightarrow> string option \<Rightarrow> 'w io
     \<Rightarrow> py_dict result \<times> string option \<times> 'w io" where
  "ask_genie_try api question space_id conversation_id s =
     (case conversation_id of
        None \<Rightarrow>
          (case call (StartConversation space_id question)
                  (start_conversation_and_wait api space_id question) s of
             (Inl e, s1) \<Rightarrow> (Inl e, None, s1)
           | (Inr initial_message, s1) \<Rightarrow>
               (case ask_genie_rest api space_id initial_message s1 of
                  (r, s2) \<Rightarrow> (r, Some (gm_conversation_id initial_message), s2)))
      | Some c \<Rightarrow>
          (case call (CreateMessage space_id c question)
                  (create_message_and_wait api space_id c question) s of
             (Inl e, s1) \<Rightarrow> (Inl e, Some c, s1)
           | (Inr initial_message, s1) \<Rightarrow>
               (case ask_genie_rest api space_id initial_message s1 of
                  (r, s2) \<Rightarrow> (r, Some c, s2))))"

definition error_payload :: py_dict where
  "error_payload = [(''error'', JStr ''An error occurred while processing your request.'')]"

definition ask_genie ::
  "'w genie_backend \<Rightarrow> string \<Rightarrow> string \<Rightarrow> string option \<Rightarrow> 'w io
     \<Rightarrow> py_dict \<times> string option \<times> 'w io" where
  "ask_genie api question space_id conversation_id s =
     (case ask_genie_try api question space_id conversation_id s of
        (Inr payload, cid, s') \<Rightarrow> (payload, cid, s')
      | (Inl e, cid, s') \<Rightarrow> (error_payload, cid, s'))"

section \<open>The message handler\<close>

text \<open>
  \<^verbatim>\<open>ask_genie\<close> returns the text \<^verbatim>\<open>json.dumps\<close> makes of a dictionary and
  the handler reads it back with \<^verbatim>\<open>json.loads\<close>; on JSON values the two are
  inverse, so the model hands over the dictionary itself and has no branch for
  \<^verbatim>\<open>JSONDecodeError\<close>. Sending the reply is the transport's part: the model
  returns the reply that \<^verbatim>\<open>send_activity\<close> is given. An exception of a renderer
  is caught by the handler and answered with the fixed error text.
\<close>

record activity =
  act_text :: string
  act_from_id :: string
  act_channel_id :: string

datatype reply = ReplyAttachments "json list" | ReplyText string

record 'w bot =
  conversation_ids :: "string \<rightharpoonup> string option"
  world :: 'w

text \<open>\<^verbatim>\<open>self.conversation_ids.get(user_id)\<close>\<close>

definition registry_get :: "(string \<rightharpoonup> string option) \<Rightarrow> string \<Rightarrow> string option" where
  "registry_get ids user_id = (case ids user_id of None \<Rightarrow> None | Some v \<Rightarrow> v)"

definition render_reply :: "py_builtins \<Rightarrow> string \<Rightarrow> py_dict \<Rightarrow> reply" where
  "render_reply rt channel answer_json =
     (if channel = ''slack''
      then (case process_for_slack rt answer_json of
              Inr attachments \<Rightarrow> ReplyAttachments attachments
            | Inl e \<Rightarrow> ReplyText ''An error occurred while processing your request.'')
      else (case process_query_results rt answer_json of
              Inr response_text \<Rightarrow> ReplyText response_text
            | Inl e \<Rightarrow> ReplyText ''An error occurred while processing your request.''))"

text \<open>
  One inbound message: the reply sent, the backend calls made for it, and the bot
  afterwards. \<open>space_id\<close> is \<^verbatim>\<open>DATABRICKS_SPACE_ID\<close>.
\<close>

definition on_message_activity ::
  "'w genie_backend \<Rightarrow> py_builtins \<Rightarrow> string \<Rightarrow> activity \<Rightarrow> 'w bot
     \<Rightarrow> reply \<times> api_call list \<times> 'w bot" where
  "on_message_activity api rt space_id turn self =
     (let question = act_text turn;
          user_id = act_from_id turn;
          conversation_id = registry_get (conversation_ids self) user_id
      in case ask_genie api question space_id conversation_id (world self, []) of
           (answer, new_conversation_id, (w', calls)) \<Rightarrow>
             (render_reply rt (act_channel_id turn) answer,
              calls,
              self\<lparr>conversation_ids := (conversation_ids self)(user_id \<mapsto> new_conversation_id),
                   world := w'\<rparr>))"

section \<open>Notions used in the statements\<close>

text \<open>A fresh-start call to the backend.\<close>

fun is_start :: "api_call \<Rightarrow> bool" where
  "is_start (StartConversation space_id question) = True"
| "is_start c = False"

subsection \<open>Concrete inputs\<close>

text \<open>
  A value for the interpreter's parameters in the closed examples. No example passes a
  string to \<^verbatim>\<open>float\<close> or \<^verbatim>\<open>int\<close> or prints a float or a quoted string, so the
  choice does not matter: this one rejects every string.
\<close>

definition example_builtins :: py_builtins where
  "example_builtins =
     \<lparr>float_of_str = (\<lambda>s. None), int_of_str = (\<lambda>s. None),
      repr_float = (\<lambda>x. []), repr_str = (\<lambda>s. s)\<rparr>"

text \<open>A backend that refuses every call.\<close>

definition failing_backend :: "unit genie_backend" where
  "failing_backend =
     \<lparr>start_conversation_and_wait = (\<lambda>sp q w. (Inl (ExternalError ''connection refused''), w)),
      create_message_and_wait = (\<lambda>sp c q w. (Inl (ExternalError ''connection refused''), w)),
      get_message_query_result = (\<lambda>sp c m w. (Inl (ExternalError ''connection refused''), w)),
      get_message = (\<lambda>sp c m w. (Inl (ExternalError ''connection refused''), w)),
      get_statement = (\<lambda>sid w. (Inl (ExternalError ''connection refused''), w))\<rparr>"

text \<open>A backend that opens thread \<open>T1\<close> and then fails to deliver the message.\<close>

definition flaky_backend :: "unit genie_backend" where
  "flaky_backend =
     \<lparr>start_conversation_and_wait =
        (\<lambda>sp q w. (Inr \<lparr>gm_id = ''m1'', gm_conversation_id = ''T1'', gm_content = q,
                          gm_query_result = None, gm_attachments = None\<rparr>, w)),
      create_message_and_wait = (\<lambda>sp c q w. (Inl (ExternalError ''timeout''), w)),
      get_message_query_result = (\<lambda>sp c m w. (Inl (ExternalError ''timeout''), w)),
      get_message = (\<lambda>sp c m w. (Inl (ExternalError ''timeout''), w)),
      get_statement = (\<lambda>sid w. (Inl (ExternalError ''timeout''), w))\<rparr>"

definition first_turn :: activity where
  "first_turn = \<lparr>act_text = ''how many orders today?'', act_from_id = ''U1'',
                 act_channel_id = ''msteams''\<rparr>"

definition second_turn :: activity where
  "second_turn = \<lparr>act_text = ''and yesterday?'', act_from_id = ''U1'',
                  act_channel_id = ''msteams''\<rparr>"

definition new_bot :: "unit bot" where
  "new_bot = \<lparr>conversation_ids = Map.empty, world = ()\<rparr>"

text \<open>A one-column table whose header alone is longer than the cut.\<close>

definition wide_payload :: py_dict where
  "wide_payload =
     [(''columns'', JDict [(''columns'',
         JList [JDict [(''name'', JStr (replicate 3000 CHR ''a'')),
                       (''type_name'', JStr ''STRING'')]])]),
      (''data'', JDict [(''data_array'', JList [])])]"

text \<open>A schema entry without a name.\<close>

definition nameless_payload :: py_dict where
  "nameless_payload =
     [(''columns'', JDict [(''columns'', JList [JDict []])]),
      (''data'', JDict [(''data_array'', JList [])])]"

text \<open>A result without rows, as a dictionary that has no \<^verbatim>\<open>data_array\<close>.\<close>

definition no_rows_payload :: py_dict where
  "no_rows_payload =
     [(''columns'', JDict [(''columns'', JList [])]),
      (''data'', JDict []),
      (''query_description'', JStr ''Orders today'')]"

subsection \<open>Well-formed tabular payloads\<close>














text \<open>The updates of \<^verbatim>\<open>col_widths\<close> that one row makes, from index \<open>i\<close> on.\<close>

fun widen :: "nat \<Rightarrow> string list \<Rightarrow> nat list \<Rightarrow> nat list" where
  "widen i [] col_widths = col_widths"
| "widen i (c # cs) col_widths =
     widen (Suc i) cs (col_widths[i := max (col_widths ! i) (length c)])"

text \<open>The number of line ends in a text.\<close>

definition count_lines :: "string \<Rightarrow> nat" where
  "count_lines s = length (filter (\<lambda>c. c = nl) s)"

section \<open>Cell formatting: results\<close>

lemma group_thousands_1234567: "group_thousands 1234567 = ''1,234,567''"
  by (simp add: group_thousands.simps show_nat.simps digit_char_def)

lemma format_float_2f_1234567_5:
  "format_float_2f (Finite False 2469135 (- 1)) = ''1,234,567.50''"
  by (simp add: group_thousands.simps show_nat.simps digit_char_def round_half_even_div_def
        Let_def)

text \<open>
  Claim C6. In \<^verbatim>\<open>process_query_results\<close>, the float 1234567.5 (that is
  \<open>2469135 * 2 ^ -1\<close>) under a column of type \<^verbatim>\<open>DOUBLE\<close> is formatted as
  \<^verbatim>\<open>1,234,567.50\<close>; the int 1234567 under \<^verbatim>\<open>BIGINT\<close> as \<^verbatim>\<open>1,234,567\<close>;
  a null cell as \<^verbatim>\<open>NULL\<close> whatever the column is; and a value that is not null, under
  a type tag other than the six numeric ones, as \<^verbatim>\<open>str(value)\<close>.
\<close>

theorem cell_formatting_plain:
  "(map_of col ''type_name'' = Some (JStr ''DOUBLE'') \<longrightarrow>
      format_value_plain rt (JFloat (Finite False 2469135 (- 1))) (JDict col)
        = Inr ''1,234,567.50'')
   \<and> (map_of col ''type_name'' = Some (JStr ''BIGINT'') \<longrightarrow>
      format_value_plain rt (JInt 1234567) (JDict col) = Inr ''1,234,567'')
   \<and> format_value_plain rt JNull any_col = Inr ''NULL''
   \<and> (map_of col ''type_name'' = Some (JStr t)
      \<and> t \<notin> {''DECIMAL'', ''DOUBLE'', ''FLOAT'', ''INT'', ''BIGINT'', ''LONG''}
      \<and> value \<noteq> JNull \<longrightarrow>
      format_value_plain rt value (JDict col) = Inr (py_str rt value))"
  by (simp add: format_value_plain_def bind_def is_type_name_def format_int_grouped_def
        group_thousands_1234567 format_float_2f_1234567_5
      del: format_float_2f.simps)

theorem cell_formatting_plain_witness:
  "format_value_plain example_builtins (JFloat (Finite False 2469135 (- 1)))
     (JDict [(''name'', JStr ''revenue''), (''type_name'', JStr ''DOUBLE'')])
     = Inr ''1,234,567.50''
   \<and> format_value_plain example_builtins (JInt 1234567)
     (JDict [(''name'', JStr ''orders''), (''type_name'', JStr ''BIGINT'')])
     = Inr ''1,234,567''
   \<and> format_value_plain example_builtins (JStr ''Oslo'')
     (JDict [(''name'', JStr ''city''), (''type_name'', JStr ''STRING'')])
     = Inr ''Oslo''"
  using cell_formatting_plain [of "[(''name'', JStr ''revenue''), (''type_name'', JStr ''DOUBLE'')]"
          example_builtins JNull "''DOUBLE''" "JFloat (Finite False 2469135 (- 1))"]
        cell_formatting_plain [of "[(''name'', JStr ''orders''), (''type_name'', JStr ''BIGINT'')]"
          example_builtins JNull "''BIGINT''" "JInt 1234567"]
        cell_formatting_plain [of "[(''name'', JStr ''city''), (''type_name'', JStr ''STRING'')]"
          example_builtins JNull "''STRING''" "JStr ''Oslo''"]
  by (simp add: py_str_def)

text \<open>
  Claim C8. The two renderers format a cell alike: for every value and every schema
  entry, the cell formatting of \<^verbatim>\<open>process_query_results\<close> and that of
  \<^verbatim>\<open>process_for_slack\<close> give the same string, or raise the same exception.
\<close>

theorem cell_formatting_agrees:
  "format_value_plain rt value col = format_value_slack rt value col"
  by (simp add: format_value_plain_def format_value_slack_def)

section \<open>The orchestrator: results\<close>

text \<open>
  Claim C1. If the body of the \<^verbatim>\<open>try\<close> in \<^verbatim>\<open>ask_genie\<close> raises an exception
  \<open>e\<close>, the function returns the payload with the fixed text, in which \<open>e\<close> does not occur,
  paired with the conversation id the local variable holds at that point: the input id if
  one was given; otherwise the id of the message \<^verbatim>\<open>start_conversation_and_wait\<close>
  returned, or \<^verbatim>\<open>None\<close> if that call is the one that raised.
\<close>

theorem ask_genie_failure:
  assumes "ask_genie_try api question space_id conversation_id s = (Inl e, cid, s')"
  shows "ask_genie api question space_id conversation_id s =
           ([(''error'', JStr ''An error occurred while processing your request.'')], cid, s')
         \<and> cid = (case conversation_id of
                   Some c \<Rightarrow> Some c
                 | None \<Rightarrow>
                     (case fst (start_conversation_and_wait api space_id question (fst s)) of
                        Inl _ \<Rightarrow> None
                      | Inr initial_message \<Rightarrow> Some (gm_conversation_id initial_message)))"
  using assms
  by (auto simp: ask_genie_def ask_genie_try_def error_payload_def call_def
           split: option.splits prod.splits sum.splits)

lemma flaky_backend_try:
  "ask_genie_try flaky_backend ''how many orders today?'' ''space'' None ((), []) =
     (Inl (ExternalError ''timeout''), Some ''T1'',
      ((), [StartConversation ''space'' ''how many orders today?'',
            GetMessage ''space'' ''T1'' ''m1'']))"
  by (simp add: ask_genie_try_def ask_genie_rest_def flaky_backend_def call_def)

theorem ask_genie_failure_witness:
  "ask_genie_try flaky_backend ''how many orders today?'' ''space'' None ((), []) =
     (Inl (ExternalError ''timeout''), Some ''T1'',
      ((), [StartConversation ''space'' ''how many orders today?'',
            GetMessage ''space'' ''T1'' ''m1'']))
   \<and> ask_genie flaky_backend ''how many orders today?'' ''space'' None ((), []) =
     ([(''error'', JStr ''An error occurred while processing your request.'')], Some ''T1'',
      ((), [StartConversation ''space'' ''how many orders today?'',
            GetMessage ''space'' ''T1'' ''m1'']))"
  using ask_genie_failure [OF flaky_backend_try] flaky_backend_try by simp

section \<open>The message handler: results\<close>

lemma ask_genie_rest_calls:
  "ask_genie_rest api space_id m s = (r, s') \<Longrightarrow>
     \<exists>cs. snd s' = snd s @ cs \<and> (\<forall>c\<in>set cs. \<not> is_start c)"
  by (auto simp: ask_genie_rest_def call_def Let_def split: option.splits prod.splits sum.splits)

lemma ask_genie_follow_up_calls:
  assumes "ask_genie api q space_id (Some c) (w, []) = (payload, cid, (w', calls))"
  shows "calls \<noteq> [] \<and> hd calls = CreateMessage space_id c q \<and> (\<forall>x\<in>set calls. \<not> is_start x)"
  using assms
  by (auto simp: ask_genie_def ask_genie_try_def call_def
           split: option.splits prod.splits sum.splits dest!: ask_genie_rest_calls)

lemma ask_genie_fresh_calls:
  assumes "ask_genie api q space_id None (w, []) = (payload, cid, (w', calls))"
  shows "calls \<noteq> [] \<and> hd calls = StartConversation space_id q"
  using assms
  by (auto simp: ask_genie_def ask_genie_try_def call_def
           split: option.splits prod.splits sum.splits dest!: ask_genie_rest_calls)

lemma handler_follow_up:
  assumes "registry_get (conversation_ids self) (act_from_id turn) = Some c"
    and "on_message_activity api rt space_id turn self = (reply2, calls2, self2)"
  shows "calls2 \<noteq> [] \<and> hd calls2 = CreateMessage space_id c (act_text turn)
         \<and> (\<forall>x\<in>set calls2. \<not> is_start x)"
proof -
  obtain payload cid w' where
    "ask_genie api (act_text turn) space_id (Some c) (world self, []) = (payload, cid, (w', calls2))"
    using assms by (auto simp: on_message_activity_def Let_def split: prod.splits)
  then show ?thesis by (rule ask_genie_follow_up_calls)
qed

lemma handler_fresh_start:
  assumes "registry_get (conversation_ids self) (act_from_id turn) = None"
    and "on_message_activity api rt space_id turn self = (reply2, calls2, self2)"
  shows "calls2 \<noteq> [] \<and> hd calls2 = StartConversation space_id (act_text turn)"
proof -
  obtain payload cid w' where
    "ask_genie api (act_text turn) space_id None (world self, []) = (payload, cid, (w', calls2))"
    using assms by (auto simp: on_message_activity_def Let_def split: prod.splits)
  then show ?thesis by (rule ask_genie_fresh_calls)
qed

lemma handler_registry:
  assumes "on_message_activity api rt space_id turn self = (reply1, calls1, self1)"
  shows "conversation_ids self1 = (conversation_ids self)(act_from_id turn \<mapsto>
           fst (snd (ask_genie api (act_text turn) space_id
                       (registry_get (conversation_ids self) (act_from_id turn)) (world self, []))))"
  using assms by (auto simp: on_message_activity_def Let_def split: prod.splits)

lemma ask_genie_error_id:
  assumes "ask_genie_try api q space_id c s = (Inl e, cid, s')"
  shows "fst (snd (ask_genie api q space_id c s)) = cid"
  using assms by (simp add: ask_genie_def)

text \<open>
  The handler reads the registry only through \<^verbatim>\<open>get\<close>: two bots whose registries
  answer every \<^verbatim>\<open>get\<close> alike behave alike.
\<close>

lemma handler_get_cong:
  assumes "\<forall>u. registry_get (conversation_ids a) u = registry_get (conversation_ids b) u"
    and "world a = world b"
  shows "fst (on_message_activity api rt sp t a) = fst (on_message_activity api rt sp t b)
       \<and> fst (snd (on_message_activity api rt sp t a))
           = fst (snd (on_message_activity api rt sp t b))
       \<and> world (snd (snd (on_message_activity api rt sp t a)))
           = world (snd (snd (on_message_activity api rt sp t b)))
       \<and> (\<forall>u. registry_get (conversation_ids (snd (snd (on_message_activity api rt sp t a)))) u
              = registry_get (conversation_ids (snd (snd (on_message_activity api rt sp t b)))) u)"
proof -
  have e: "registry_get (conversation_ids a) (act_from_id t)
             = registry_get (conversation_ids b) (act_from_id t)"
    using assms by simp
  show ?thesis
    using assms
    by (auto simp: on_message_activity_def Let_def e registry_get_def split: prod.splits)
qed

text \<open>
  Claim C2. After \<^verbatim>\<open>ask_genie\<close> returns, \<^verbatim>\<open>on_message_activity\<close> stores the
  returned conversation id under the sender's user id, also when the orchestrator raised
  internally and returned the error payload. If the registry then holds thread \<open>T1\<close> for
  the user, the handling of the user's next message makes calls that begin with
  \<^verbatim>\<open>create_message_and_wait\<close> on \<open>T1\<close> and contain no
  \<^verbatim>\<open>start_conversation_and_wait\<close>.
\<close>

theorem session_continuity:
  assumes "on_message_activity api rt space_id turn self = (reply1, calls1, self1)"
  shows "conversation_ids self1 =
           (conversation_ids self)(act_from_id turn \<mapsto>
              fst (snd (ask_genie api (act_text turn) space_id
                          (registry_get (conversation_ids self) (act_from_id turn))
                          (world self, []))))
         \<and> (\<forall>e cid s'.
               ask_genie_try api (act_text turn) space_id
                 (registry_get (conversation_ids self) (act_from_id turn)) (world self, [])
                 = (Inl e, cid, s')
               \<longrightarrow> conversation_ids self1 (act_from_id turn) = Some cid)
         \<and> (\<forall>T1 turn2 reply2 calls2 self2.
               registry_get (conversation_ids self1) (act_from_id turn) = Some T1
               \<and> act_from_id turn2 = act_from_id turn
               \<and> on_message_activity api rt space_id turn2 self1 = (reply2, calls2, self2)
               \<longrightarrow> calls2 \<noteq> []
                   \<and> hd calls2 = CreateMessage space_id T1 (act_text turn2)
                   \<and> (\<forall>c\<in>set calls2. \<not> is_start c))"
proof (intro conjI allI impI)
  show r: "conversation_ids self1 =
           (conversation_ids self)(act_from_id turn \<mapsto>
              fst (snd (ask_genie api (act_text turn) space_id
                          (registry_get (conversation_ids self) (act_from_id turn))
                          (world self, []))))"
    by (rule handler_registry [OF assms])
  fix e cid s'
  assume "ask_genie_try api (act_text turn) space_id
            (registry_get (conversation_ids self) (act_from_id turn)) (world self, [])
          = (Inl e, cid, s')"
  from ask_genie_error_id [OF this] r
  show "conversation_ids self1 (act_from_id turn) = Some cid" by simp
next
  fix T1 turn2 reply2 calls2 self2
  assume h: "registry_get (conversation_ids self1) (act_from_id turn) = Some T1
               \<and> act_from_id turn2 = act_from_id turn
               \<and> on_message_activity api rt space_id turn2 self1 = (reply2, calls2, self2)"
  then have g: "registry_get (conversation_ids self1) (act_from_id turn2) = Some T1" by simp
  from h have o: "on_message_activity api rt space_id turn2 self1 = (reply2, calls2, self2)"
    by simp
  from handler_follow_up [OF g o]
  show "calls2 \<noteq> []" "hd calls2 = CreateMessage space_id T1 (act_text turn2)"
       "\<forall>c\<in>set calls2. \<not> is_start c" by simp_all
qed

lemma flaky_first_turn:
  "on_message_activity flaky_backend example_builtins ''space'' first_turn new_bot =
     (ReplyText (''No data available.'' @ [nl, nl]),
      [StartConversation ''space'' ''how many orders today?'', GetMessage ''space'' ''T1'' ''m1''],
      \<lparr>conversation_ids = [''U1'' \<mapsto> Some ''T1''], world = ()\<rparr>)"
  by (simp add: on_message_activity_def ask_genie_def ask_genie_try_def ask_genie_rest_def
        flaky_backend_def call_def first_turn_def new_bot_def registry_get_def render_reply_def
        process_query_results_def plain_description_def error_payload_def)

lemma flaky_second_turn:
  "on_message_activity flaky_backend example_builtins ''space'' second_turn
     \<lparr>conversation_ids = [''U1'' \<mapsto> Some ''T1''], world = ()\<rparr> =
     (ReplyText (''No data available.'' @ [nl, nl]),
      [CreateMessage ''space'' ''T1'' ''and yesterday?''],
      \<lparr>conversation_ids = [''U1'' \<mapsto> Some ''T1''], world = ()\<rparr>)"
  by (simp add: on_message_activity_def ask_genie_def ask_genie_try_def ask_genie_rest_def
        flaky_backend_def call_def second_turn_def registry_get_def render_reply_def
        process_query_results_def plain_description_def error_payload_def)

theorem session_continuity_witness:
  "on_message_activity flaky_backend example_builtins ''space'' first_turn new_bot =
     (ReplyText (''No data available.'' @ [nl, nl]),
      [StartConversation ''space'' ''how many orders today?'', GetMessage ''space'' ''T1'' ''m1''],
      \<lparr>conversation_ids = [''U1'' \<mapsto> Some ''T1''], world = ()\<rparr>)
   \<and> ask_genie_try flaky_backend ''how many orders today?'' ''space'' None ((), []) =
     (Inl (ExternalError ''timeout''), Some ''T1'',
      ((), [StartConversation ''space'' ''how many orders today?'',
            GetMessage ''space'' ''T1'' ''m1'']))
   \<and> on_message_activity flaky_backend example_builtins ''space'' second_turn
     \<lparr>conversation_ids = [''U1'' \<mapsto> Some ''T1''], world = ()\<rparr> =
     (ReplyText (''No data available.'' @ [nl, nl]),
      [CreateMessage ''space'' ''T1'' ''and yesterday?''],
      \<lparr>conversation_ids = [''U1'' \<mapsto> Some ''T1''], world = ()\<rparr>)
   \<and> hd [CreateMessage ''space'' ''T1'' ''and yesterday?'']
       = CreateMessage ''space'' ''T1'' (act_text second_turn)
   \<and> \<not> is_start (CreateMessage ''space'' ''T1'' ''and yesterday?'')"
  using session_continuity [OF flaky_first_turn] flaky_first_turn flaky_second_turn
        flaky_backend_try
  by (simp add: second_turn_def)

text \<open>
  Claim C9. If a user has no thread and \<^verbatim>\<open>start_conversation_and_wait\<close> raises on
  the user's message, the handler stores \<^verbatim>\<open>None\<close> under the user's key; the next
  lookup returns \<^verbatim>\<open>None\<close>, so the user's next message begins with a fresh
  \<^verbatim>\<open>start_conversation_and_wait\<close>; and for every further message the bot replies,
  calls the backend and answers registry lookups exactly as the bot without that key does.
\<close>

theorem failed_first_contact:
  assumes "registry_get (conversation_ids self) (act_from_id turn) = None"
    and "fst (start_conversation_and_wait api space_id (act_text turn) (world self)) = Inl e"
    and "on_message_activity api rt space_id turn self = (reply1, calls1, self1)"
  shows "conversation_ids self1 (act_from_id turn) = Some None
       \<and> registry_get (conversation_ids self1) (act_from_id turn) = None
       \<and> (\<forall>turn2 reply2 calls2 self2.
             act_from_id turn2 = act_from_id turn
             \<and> on_message_activity api rt space_id turn2 self1 = (reply2, calls2, self2)
             \<longrightarrow> calls2 \<noteq> [] \<and> hd calls2 = StartConversation space_id (act_text turn2))
       \<and> (\<forall>turn2.
             (let fresh = self1\<lparr>conversation_ids :=
                                (conversation_ids self1)(act_from_id turn := None)\<rparr>;
                  after = on_message_activity api rt space_id turn2 self1;
                  after_fresh = on_message_activity api rt space_id turn2 fresh
              in fst after = fst after_fresh
               \<and> fst (snd after) = fst (snd after_fresh)
               \<and> world (snd (snd after)) = world (snd (snd after_fresh))
               \<and> (\<forall>u. registry_get (conversation_ids (snd (snd after))) u
                      = registry_get (conversation_ids (snd (snd after_fresh))) u)))"
proof -
  have stored: "conversation_ids self1 (act_from_id turn) = Some None"
    using assms
    by (auto simp: on_message_activity_def Let_def ask_genie_def ask_genie_try_def call_def
             split: prod.splits sum.splits option.splits)
  then have got: "registry_get (conversation_ids self1) (act_from_id turn) = None"
    by (simp add: registry_get_def)
  have next_start: "\<forall>turn2 reply2 calls2 self2.
             act_from_id turn2 = act_from_id turn
             \<and> on_message_activity api rt space_id turn2 self1 = (reply2, calls2, self2)
             \<longrightarrow> calls2 \<noteq> [] \<and> hd calls2 = StartConversation space_id (act_text turn2)"
  proof (intro allI impI)
    fix turn2 reply2 calls2 self2
    assume h: "act_from_id turn2 = act_from_id turn
             \<and> on_message_activity api rt space_id turn2 self1 = (reply2, calls2, self2)"
    then have g: "registry_get (conversation_ids self1) (act_from_id turn2) = None"
      using got by simp
    from h have o: "on_message_activity api rt space_id turn2 self1 = (reply2, calls2, self2)"
      by simp
    from handler_fresh_start [OF g o]
    show "calls2 \<noteq> [] \<and> hd calls2 = StartConversation space_id (act_text turn2)" .
  qed
  have same: "\<forall>u. registry_get (conversation_ids self1) u
      = registry_get (conversation_ids
          (self1\<lparr>conversation_ids := (conversation_ids self1)(act_from_id turn := None)\<rparr>)) u"
    using got by (simp add: registry_get_def)
  have w: "world self1
      = world (self1\<lparr>conversation_ids := (conversation_ids self1)(act_from_id turn := None)\<rparr>)"
    by simp
  have indist: "\<forall>turn2.
             (let fresh = self1\<lparr>conversation_ids :=
                                (conversation_ids self1)(act_from_id turn := None)\<rparr>;
                  after = on_message_activity api rt space_id turn2 self1;
                  after_fresh = on_message_activity api rt space_id turn2 fresh
              in fst after = fst after_fresh
               \<and> fst (snd after) = fst (snd after_fresh)
               \<and> world (snd (snd after)) = world (snd (snd after_fresh))
               \<and> (\<forall>u. registry_get (conversation_ids (snd (snd after))) u
                      = registry_get (conversation_ids (snd (snd after_fresh))) u))"
    unfolding Let_def using handler_get_cong [OF same w] by blast
  from stored got next_start indist show ?thesis by blast
qed

lemma failing_first_turn:
  "on_message_activity failing_backend example_builtins ''space'' first_turn new_bot =
     (ReplyText (''No data available.'' @ [nl, nl]),
      [StartConversation ''space'' ''how many orders today?''],
      \<lparr>conversation_ids = [''U1'' \<mapsto> None], world = ()\<rparr>)"
  by (simp add: on_message_activity_def ask_genie_def ask_genie_try_def
        failing_backend_def call_def first_turn_def new_bot_def registry_get_def render_reply_def
        process_query_results_def plain_description_def error_payload_def)

lemma failing_second_turn:
  "on_message_activity failing_backend example_builtins ''space'' second_turn
     \<lparr>conversation_ids = [''U1'' \<mapsto> None], world = ()\<rparr> =
     (ReplyText (''No data available.'' @ [nl, nl]),
      [StartConversation ''space'' ''and yesterday?''],
      \<lparr>conversation_ids = [''U1'' \<mapsto> None], world = ()\<rparr>)"
  by (simp add: on_message_activity_def ask_genie_def ask_genie_try_def
        failing_backend_def call_def second_turn_def registry_get_def render_reply_def
        process_query_results_def plain_description_def error_payload_def)

theorem failed_first_contact_witness:
  "registry_get (conversation_ids new_bot) (act_from_id first_turn) = None
   \<and> fst (start_conversation_and_wait failing_backend ''space'' (act_text first_turn)
            (world new_bot)) = Inl (ExternalError ''connection refused'')
   \<and> on_message_activity failing_backend example_builtins ''space'' first_turn new_bot =
     (ReplyText (''No data available.'' @ [nl, nl]),
      [StartConversation ''space'' ''how many orders today?''],
      \<lparr>conversation_ids = [''U1'' \<mapsto> None], world = ()\<rparr>)
   \<and> [''U1'' \<mapsto> None] ''U1'' = Some (None :: string option)
   \<and> registry_get [''U1'' \<mapsto> None] ''U1'' = None
   \<and> on_message_activity failing_backend example_builtins ''space'' second_turn
     \<lparr>conversation_ids = [''U1'' \<mapsto> None], world = ()\<rparr> =
     (ReplyText (''No data available.'' @ [nl, nl]),
      [StartConversation ''space'' ''and yesterday?''],
      \<lparr>conversation_ids = [''U1'' \<mapsto> None], world = ()\<rparr>)
   \<and> hd [StartConversation ''space'' ''and yesterday?'']
       = StartConversation ''space'' (act_text second_turn)"
proof -
  have a: "registry_get (conversation_ids new_bot) (act_from_id first_turn) = None"
    by (simp add: new_bot_def registry_get_def)
  have b: "fst (start_conversation_and_wait failing_backend ''space'' (act_text first_turn)
            (world new_bot)) = Inl (ExternalError ''connection refused'')"
    by (simp add: failing_backend_def)
  from failed_first_contact [OF a b failing_first_turn] a b failing_first_turn failing_second_turn
  show ?thesis by (simp add: second_turn_def first_turn_def registry_get_def)
qed

section \<open>The renderers: fallbacks and truncation\<close>

lemma wide_table:
  "slack_table example_builtins
     (JDict [(''columns'',
         JList [JDict [(''name'', JStr (replicate 3000 CHR ''a'')),
                       (''type_name'', JStr ''STRING'')]])])
     (JDict [(''data_array'', JList [])])
   = Inr (replicate 3000 CHR ''a'' @ [nl] @ replicate 3000 CHR ''-'' @ [nl])"
  by (simp add: slack_table_def bind_def ljust_def enumerate_eq_zip)

text \<open>
  Claim C3, as stated, fails: the text cut at 2950 characters and followed by the marker
  is 2953 characters long, which exceeds 2950. The header of \<open>wide_payload\<close> is 3000
  characters.
\<close>

theorem truncation_limit_counterexample:
  "process_for_slack example_builtins wide_payload =
     Inr [section_block (JStr ''*Query Results:*''),
          section_block (JStr (''```'' @ replicate 2950 CHR ''a'' @ ''...'' @ ''```''))]
   \<and> 2950 < length (replicate 2950 CHR ''a'' @ ''...'')"
  by (simp add: process_for_slack_def wide_payload_def slack_description_def is_dict_with_def
      bind_def wide_table truncate_table_def max_chars_def)

text \<open>
  Claim C3, amended. For a payload whose \<^verbatim>\<open>columns\<close> is a dictionary with a
  \<^verbatim>\<open>columns\<close> key and whose \<^verbatim>\<open>data\<close> is a dictionary with a
  \<^verbatim>\<open>data_array\<close> key, and whose table is built as \<open>table_str\<close>, the last block of
  \<^verbatim>\<open>process_for_slack\<close> holds, between the code fences, the first 2950 characters of
  \<open>table_str\<close> followed by \<^verbatim>\<open>...\<close> when \<open>table_str\<close> is longer than 2950 (2953
  characters in all), and \<open>table_str\<close> whole otherwise; with the fences the text is at
  most 2959 characters, under the limit of 3000 the source names.
\<close>

theorem table_truncation:
  assumes "map_of answer_json ''columns'' = Some columns"
    and "map_of answer_json ''data'' = Some data"
    and "is_dict_with columns ''columns''"
    and "is_dict_with data ''data_array''"
    and "slack_table rt columns data = Inr table_str"
  shows "process_for_slack rt answer_json =
           Inr (slack_description rt answer_json @
                [section_block (JStr ''*Query Results:*''),
                 section_block (JStr (''```'' @ truncate_table table_str @ ''```''))])
       \<and> (2950 < length table_str \<longrightarrow>
            truncate_table table_str = take 2950 table_str @ ''...''
            \<and> length (truncate_table table_str) = 2953)
       \<and> (length table_str \<le> 2950 \<longrightarrow> truncate_table table_str = table_str)
       \<and> length (''```'' @ truncate_table table_str @ ''```'') \<le> 2959"
proof -
  have "py_contains data ''data_array'' = Inr True"
    using assms(4) by (cases data) (simp_all add: is_dict_with_def)
  with assms show ?thesis
    by (simp add: process_for_slack_def bind_def truncate_table_def max_chars_def)
qed

theorem table_truncation_witness:
  "slack_table example_builtins
     (JDict [(''columns'',
         JList [JDict [(''name'', JStr (replicate 3000 CHR ''a'')),
                       (''type_name'', JStr ''STRING'')]])])
     (JDict [(''data_array'', JList [])])
   = Inr (replicate 3000 CHR ''a'' @ [nl] @ replicate 3000 CHR ''-'' @ [nl])
   \<and> truncate_table (replicate 3000 CHR ''a'' @ [nl] @ replicate 3000 CHR ''-'' @ [nl])
       = replicate 2950 CHR ''a'' @ ''...''
   \<and> process_for_slack example_builtins wide_payload =
       Inr [section_block (JStr ''*Query Results:*''),
            section_block (JStr (''```'' @ replicate 2950 CHR ''a'' @ ''...'' @ ''```''))]"
  using table_truncation [of wide_payload
          "JDict [(''columns'',
             JList [JDict [(''name'', JStr (replicate 3000 CHR ''a'')),
                           (''type_name'', JStr ''STRING'')]])]"
          "JDict [(''data_array'', JList [])]" example_builtins
          "replicate 3000 CHR ''a'' @ [nl] @ replicate 3000 CHR ''-'' @ [nl]"]
        wide_table
  by (simp add: wide_payload_def is_dict_with_def slack_description_def)

text \<open>
  Claim C4, as stated, fails: a schema entry without a name makes both renderers raise
  \<^verbatim>\<open>KeyError\<close>.
\<close>

theorem renderers_raise_counterexample:
  "process_query_results example_builtins nameless_payload = Inl (KeyError (JStr ''name''))
   \<and> process_for_slack example_builtins nameless_payload = Inl (KeyError (JStr ''name''))"
  by (simp add: process_query_results_def process_for_slack_def nameless_payload_def
      is_dict_with_def bind_def plain_table_def plain_header_def slack_table_def)

text \<open>
  Claim C4, amended. Both renderers return, and do not raise, on every payload that lacks
  \<^verbatim>\<open>columns\<close> or \<^verbatim>\<open>data\<close>: after the optional description comes the message
  if there is one, and the placeholder \<^verbatim>\<open>No data available.\<close> otherwise (so also for
  the error payload). They return a fixed text, too, when both keys are there and
  \<^verbatim>\<open>columns\<close> is not a dictionary with a \<^verbatim>\<open>columns\<close> key. A payload with none
  of the four recognized keys yields the placeholder alone.
\<close>

theorem renderers_fallback:
  "(map_of answer_json ''columns'' = None \<or> map_of answer_json ''data'' = None \<longrightarrow>
      process_query_results rt answer_json =
        Inr (plain_description rt answer_json @
             (case map_of answer_json ''message'' of
                Some message \<Rightarrow> py_str rt message
              | None \<Rightarrow> ''No data available.'') @ [nl, nl])
      \<and> process_for_slack rt answer_json =
        Inr (slack_description rt answer_json @
             [section_block (case map_of answer_json ''message'' of
                               Some message \<Rightarrow> message
                             | None \<Rightarrow> JStr ''No data available.'')]))
   \<and> (map_of answer_json ''columns'' = Some columns \<and> map_of answer_json ''data'' = Some data
      \<and> \<not> is_dict_with columns ''columns'' \<longrightarrow>
      process_query_results rt answer_json =
        Inr (plain_description rt answer_json @ ''## Query Results'' @ [nl, nl] @
             ''Unexpected column format: '' @ py_str rt columns @ [nl, nl])
      \<and> process_for_slack rt answer_json =
        Inr (slack_description rt answer_json @
             [section_block (JStr ''Unexpected data format received.'')]))
   \<and> (map_of answer_json ''columns'' = None \<and> map_of answer_json ''data'' = None
      \<and> map_of answer_json ''message'' = None
      \<and> map_of answer_json ''query_description'' = None \<longrightarrow>
      process_query_results rt answer_json = Inr (''No data available.'' @ [nl, nl])
      \<and> process_for_slack rt answer_json = Inr [section_block (JStr ''No data available.'')])"
  by (auto simp: process_query_results_def process_for_slack_def bind_def
        plain_description_def slack_description_def split: option.splits)

theorem renderers_fallback_witness:
  "process_query_results example_builtins error_payload = Inr (''No data available.'' @ [nl, nl])
   \<and> process_for_slack example_builtins error_payload
       = Inr [section_block (JStr ''No data available.'')]
   \<and> process_query_results example_builtins [(''message'', JStr ''42 orders'')]
       = Inr (''42 orders'' @ [nl, nl])
   \<and> process_for_slack example_builtins [(''message'', JStr ''42 orders'')]
       = Inr [section_block (JStr ''42 orders'')]
   \<and> process_query_results example_builtins [(''columns'', JStr ''x''), (''data'', JNull)]
       = Inr (''## Query Results'' @ [nl, nl] @ ''Unexpected column format: x'' @ [nl, nl])
   \<and> process_for_slack example_builtins [(''columns'', JStr ''x''), (''data'', JNull)]
       = Inr [section_block (JStr ''Unexpected data format received.'')]"
  using renderers_fallback [of error_payload example_builtins JNull JNull]
        renderers_fallback [of "[(''message'', JStr ''42 orders'')]" example_builtins JNull JNull]
        renderers_fallback [of "[(''columns'', JStr ''x''), (''data'', JNull)]" example_builtins
          "JStr ''x''" JNull]
  by (simp add: error_payload_def plain_description_def slack_description_def is_dict_with_def
        py_str_def)

text \<open>
  On a result without rows the two renderers part: \<^verbatim>\<open>process_for_slack\<close> tests
  for \<^verbatim>\<open>data_array\<close> and reports an unexpected format, while
  \<^verbatim>\<open>process_query_results\<close> reads \<^verbatim>\<open>data["data_array"]\<close> untested.
\<close>

lemma plain_renderer_without_data_array:
  "process_query_results example_builtins no_rows_payload = Inl (KeyError (JStr ''data_array''))"
  by (simp add: process_query_results_def no_rows_payload_def is_dict_with_def bind_def
      plain_table_def plain_header_def plain_separator_def)

text \<open>
  Claim C10. \<^verbatim>\<open>ask_genie\<close> builds \<^verbatim>\<open>data\<close> with \<^verbatim>\<open>as_dict()\<close>, so it is
  a dictionary, and to lack a key is said of a dictionary. For every payload with both
  \<^verbatim>\<open>columns\<close> and \<^verbatim>\<open>data\<close> where \<^verbatim>\<open>columns\<close> is not a dictionary
  with a \<^verbatim>\<open>columns\<close> key (whatever \<^verbatim>\<open>data\<close> is then), or \<^verbatim>\<open>data\<close> is
  a dictionary without a \<^verbatim>\<open>data_array\<close> key, \<^verbatim>\<open>process_for_slack\<close> does not
  raise: it returns the description blocks, if any, followed by one section block with
  the text \<^verbatim>\<open>Unexpected data format received.\<close>
\<close>

theorem unexpected_format:
  assumes "map_of answer_json ''columns'' = Some columns"
    and "map_of answer_json ''data'' = Some data"
    and "\<not> is_dict_with columns ''columns''
         \<or> (\<exists>kvs. data = JDict kvs \<and> ''data_array'' \<notin> fst ` set kvs)"
  shows "process_for_slack rt answer_json =
           Inr (slack_description rt answer_json @
                [section_block (JStr ''Unexpected data format received.'')])"
  using assms
  by (auto simp: process_for_slack_def bind_def)

theorem unexpected_format_witness:
  "map_of no_rows_payload ''columns'' = Some (JDict [(''columns'', JList [])])
   \<and> map_of no_rows_payload ''data'' = Some (JDict [])
   \<and> process_for_slack example_builtins no_rows_payload =
       Inr [section_block (JStr (''*Query Description:*'' @ [nl] @ ''Orders today'')),
            divider_block,
            section_block (JStr ''Unexpected data format received.'')]
   \<and> process_for_slack example_builtins
         [(''columns'', JList []), (''data'', JDict [(''data_array'', JList [])])] =
       Inr [section_block (JStr ''Unexpected data format received.'')]"
  using unexpected_format [of no_rows_payload "JDict [(''columns'', JList [])]" "JDict []"
          example_builtins]
        unexpected_format [of "[(''columns'', JList []), (''data'', JDict [(''data_array'', JList [])])]"
          "JList []" "JDict [(''data_array'', JList [])]" example_builtins]
  by (simp add: no_rows_payload_def slack_description_def py_str_def is_dict_with_def)

section \<open>The plain renderer: the table\<close>







lemma count_lines_append [simp]: "count_lines (xs @ ys) = count_lines xs + count_lines ys"
  by (simp add: count_lines_def)

lemma count_lines_Nil [simp]: "count_lines [] = 0"
  by (simp add: count_lines_def)

lemma count_lines_Cons [simp]:
  "count_lines (c # cs) = (if c = nl then 1 else 0) + count_lines cs"
  by (simp add: count_lines_def)










section \<open>The block renderer: the table\<close>

lemma length_widen [simp]: "length (widen i cs ws) = length ws"
  by (induction cs arbitrary: i ws) auto






lemma length_foldl_widen [simp]:
  "length (foldl (\<lambda>ws cells. widen 0 cells ws) ws css) = length ws"
  by (induction css arbitrary: ws) auto















end
